theory Spec2Isabelle
  imports Complex_Main
begin

section \<open>Data model (shared/schema.ts)\<close>

text \<open>
  The three tables of the auction platform. A \<^verbatim>\<open>timestamp\<close> column is the number of
  milliseconds of a JavaScript \<^verbatim>\<open>Date\<close>; a \<^verbatim>\<open>decimal(10, 2)\<close> column is its number of
  hundredths, so the price "150.00" is \<open>15000\<close>. The column holds the values below
  \<open>10 ^ 8\<close> in magnitude (\<open>numeric_10_2\<close>); the database refuses any other. The special
  value NaN, which a numeric column can also hold, is left out of the model.
\<close>

datatype ArtworkStatus = PENDING | ACTIVE | SOLD | EXPIRED

datatype UserRole = BIDDER | ARTIST | ADMIN

type_synonym Date = int

type_synonym decimal = int

definition numeric_10_2 :: "decimal \<Rightarrow> bool" where
  "numeric_10_2 v \<longleftrightarrow> \<bar>v\<bar> < 10 ^ 10"

record user =
  user_id :: string
  clerkId :: string
  email :: string
  user_name :: "string option"
  role :: UserRole
  user_createdAt :: Date
  user_updatedAt :: Date

text \<open>
  \<^verbatim>\<open>InsertArtwork\<close> is the output type of \<^verbatim>\<open>insertArtworkSchema\<close>; a row of \<^verbatim>\<open>artworks\<close>
  is those fields (the \<^verbatim>\<open>...artworkData\<close> spread of \<^verbatim>\<open>createArtwork\<close>) and the columns
  the insert or the table defaults fill in. The two differ in the starting price and the
  end time. In \<^verbatim>\<open>InsertArtwork\<close> the price is any string and the end time is the \<^verbatim>\<open>Date\<close>
  object \<^verbatim>\<open>new Date(str)\<close> made of any string: the string is represented by the decimal
  the database reads from it (\<open>None\<close> when it reads none, as from "" or "abc"), the object
  by its time value (\<open>None\<close> for an Invalid Date). In a row both are values.
\<close>

type_synonym decimal_text = "decimal option"

type_synonym JsDate = "Date option"

record ('p, 't) ArtworkData =
  title :: string
  description :: string
  imageUrl :: string
  imagePublicId :: string
  category :: string
  startingPrice :: 'p
  endTime :: 't
  artistId :: string
  status :: ArtworkStatus

type_synonym InsertArtwork = "(decimal_text, JsDate) ArtworkData"

record artwork = "(decimal, Date) ArtworkData" +
  artwork_id :: string
  currentPrice :: decimal
  auctionStart :: "Date option"
  isActive :: "bool option"
  artwork_createdAt :: Date
  artwork_updatedAt :: Date

text \<open>
  \<^verbatim>\<open>InsertBid\<close> is \<^verbatim>\<open>insertBidSchema\<close>'s output: a bid row without \<^verbatim>\<open>id\<close> and
  \<^verbatim>\<open>createdAt\<close>. The code never inserts a bid without the default \<^verbatim>\<open>createdAt\<close>, so
  the column is read as a \<open>Date\<close>. The amount, a string in the code, is represented by the
  decimal the database reads from it; a string it reads no decimal from is refused by the
  insert as a decimal out of the column's range is, and is represented by one.
\<close>

record InsertBid =
  artworkId :: string
  bidderId :: string
  amount :: decimal

record bid = InsertBid +
  bid_id :: string
  bid_createdAt :: Date

record db =
  users :: "user list"
  artworks :: "artwork list"
  bids :: "bid list"

text \<open>
  What a statement can throw: \<open>ZodError\<close> from a schema's \<^verbatim>\<open>parse\<close>, \<open>DbError\<close> from the
  database and its driver (a duplicate primary key, a text that is no decimal, a decimal
  out of the column's range, an Invalid Date that cannot be written).
\<close>

datatype error = ZodError | DbError

section \<open>Money formatter (server/utils.ts)\<close>

text \<open>
  \<^verbatim>\<open>formatDecimal\<close> is \<^verbatim>\<open>parseFloat\<close>, \<^verbatim>\<open>isNaN\<close> and \<^verbatim>\<open>toFixed(2)\<close>. The three built-ins
  are modelled after ECMA-262. A Number is NaN, an infinity, the negative zero, or a
  finite value given by the rational it denotes (\<open>Finite 0\<close> is the positive zero). A
  string is a list of code units below 256.
\<close>

datatype Number = NaN | PosInfinity | NegInfinity | NegZero | Finite rat

subsection \<open>The Number value of a rational\<close>

text \<open>
  The double nearest to a rational, ties to the even significand: a significand of 53
  bits, the least exponent \<open>-1074\<close>, and an infinity from \<open>2 ^ 1024\<close> on. A negative
  rational that rounds to zero gives the negative zero.
\<close>

function bitLength :: "int \<Rightarrow> int" where
  "bitLength n = (if n \<le> 0 then 0 else 1 + bitLength (n div 2))"
  by pat_completeness auto
termination
  by (relation "measure nat") auto

declare bitLength.simps [simp del]

definition floorLog2 :: "rat \<Rightarrow> int" where
  "floorLog2 q =
     (let (a, b) = quotient_of q;
          k = bitLength a - bitLength b
      in if 2 powi k \<le> q then k else k - 1)"

definition roundHalfEven :: "rat \<Rightarrow> int" where
  "roundHalfEven x =
     (let f = \<lfloor>x\<rfloor>; d = x - of_int f
      in if d < 1 / 2 then f else if 1 / 2 < d then f + 1 else if even f then f else f + 1)"

definition NumberValue :: "rat \<Rightarrow> Number" where
  "NumberValue x =
     (if x = 0 then Finite 0
      else let a = \<bar>x\<bar>;
               e = max (floorLog2 a - 52) (- 1074);
               v = of_int (roundHalfEven (a / 2 powi e)) * 2 powi e
           in if of_int (2 ^ 1024) \<le> v then (if x < 0 then NegInfinity else PosInfinity)
              else if v = 0 then (if x < 0 then NegZero else Finite 0)
              else Finite (if x < 0 then - v else v))"

subsection \<open>parseFloat\<close>

text \<open>
  Leading white space is dropped; the longest prefix of the rest that is a
  \<^verbatim>\<open>StrDecimalLiteral\<close> is read (a sign, then \<^verbatim>\<open>Infinity\<close> or digits with an optional
  fraction and an optional complete exponent part), whatever follows is ignored, and no
  such prefix gives NaN. The value is the Number value of the literal's mathematical
  value. (For a literal of more than 20 significant digits the standard also lets an
  implementation round the literal cut to 20 digits, or that plus one in the 20th.)
\<close>

definition StrWhiteSpaceChar :: "char \<Rightarrow> bool" where
  "StrWhiteSpaceChar c \<longleftrightarrow> (of_char c :: int) \<in> {9, 10, 11, 12, 13, 32, 160}"

definition DecimalDigit :: "char \<Rightarrow> bool" where
  "DecimalDigit c \<longleftrightarrow> 48 \<le> (of_char c :: int) \<and> (of_char c :: int) \<le> 57"

definition DecimalDigits_MV :: "string \<Rightarrow> int" where
  "DecimalDigits_MV ds = foldl (\<lambda>n c. 10 * n + (of_char c - 48)) 0 ds"

definition SignedInteger_MV :: "string \<Rightarrow> int option" where
  "SignedInteger_MV r =
     (let (neg, r') = (case r of
                         [] \<Rightarrow> (False, r)
                       | c # t \<Rightarrow> if c = CHR ''-'' then (True, t)
                                  else if c = CHR ''+'' then (False, t) else (False, r));
          ds = takeWhile DecimalDigit r'
      in if ds = [] then None
         else Some (if neg then - DecimalDigits_MV ds else DecimalDigits_MV ds))"

definition ExponentPart_MV :: "string \<Rightarrow> int" where
  "ExponentPart_MV r =
     (case r of
        [] \<Rightarrow> 0
      | c # t \<Rightarrow> if c = CHR ''e'' \<or> c = CHR ''E''
                 then (case SignedInteger_MV t of None \<Rightarrow> 0 | Some n \<Rightarrow> n)
                 else 0)"

definition StrUnsignedDecimalLiteral :: "string \<Rightarrow> Number" where
  "StrUnsignedDecimalLiteral r =
     (if take 8 r = ''Infinity'' then PosInfinity
      else let ip = takeWhile DecimalDigit r;
               r1 = dropWhile DecimalDigit r;
               dot = (r1 \<noteq> [] \<and> hd r1 = CHR ''.'');
               fp = (if dot then takeWhile DecimalDigit (tl r1) else []);
               r2 = (if dot then dropWhile DecimalDigit (tl r1) else r1)
           in if ip = [] \<and> fp = [] then NaN
              else NumberValue (of_int (DecimalDigits_MV (ip @ fp)) *
                     10 powi (ExponentPart_MV r2 - int (length fp))))"

definition negate :: "Number \<Rightarrow> Number" where
  "negate x =
     (case x of
        NaN \<Rightarrow> NaN
      | PosInfinity \<Rightarrow> NegInfinity
      | NegInfinity \<Rightarrow> PosInfinity
      | NegZero \<Rightarrow> Finite 0
      | Finite q \<Rightarrow> if q = 0 then NegZero else Finite (- q))"

definition parseFloat :: "string \<Rightarrow> Number" where
  "parseFloat inputString =
     (let trimmed = dropWhile StrWhiteSpaceChar inputString
      in case trimmed of
           [] \<Rightarrow> NaN
         | c # r \<Rightarrow> if c = CHR ''-'' then negate (StrUnsignedDecimalLiteral r)
                    else if c = CHR ''+'' then StrUnsignedDecimalLiteral r
                    else StrUnsignedDecimalLiteral trimmed)"

definition isNaN :: "Number \<Rightarrow> bool" where
  "isNaN x \<longleftrightarrow> x = NaN"

subsection \<open>Number.prototype.toFixed\<close>

function decimalRepresentation :: "int \<Rightarrow> string" where
  "decimalRepresentation n =
     (if n < 10 then [char_of (48 + n)]
      else decimalRepresentation (n div 10) @ [char_of (48 + n mod 10)])"
  by pat_completeness auto
termination
  by (relation "measure nat") auto

declare decimalRepresentation.simps [simp del]

text \<open>
  \<^verbatim>\<open>Number::toString\<close> of a finite \<open>x \<ge> 10 ^ 21\<close>, the only finite case \<^verbatim>\<open>toFixed\<close> hands
  over: the fewest digits \<open>s\<close> (\<open>k\<close> of them) and the exponent \<open>n\<close> with
  \<open>NumberValue (s * 10 ^ (n - k)) = x\<close>, the closest to \<open>x\<close> among several, written in
  exponent notation. \<open>x\<close> is an integer there, so its own digits always qualify.
\<close>

definition toString_candidates :: "rat \<Rightarrow> nat \<Rightarrow> (nat \<times> int) list" where
  "toString_candidates x k =
     (let d = length (decimalRepresentation \<lfloor>x\<rfloor>)
      in concat (map (\<lambda>n. concat (map (\<lambda>s.
            if 10 ^ (k - 1) \<le> s \<and> s < 10 ^ k \<and> k \<le> n \<and>
               NumberValue (of_int s * 10 ^ (n - k)) = Finite x
            then [(n, s)] else [])
           [\<lfloor>x / 10 ^ (n - k)\<rfloor>, \<lfloor>x / 10 ^ (n - k)\<rfloor> + 1])) [d, d + 1]))"

definition closest :: "rat \<Rightarrow> nat \<Rightarrow> (nat \<times> int) list \<Rightarrow> (nat \<times> int)" where
  "closest x k cs =
     fold (\<lambda>(n, s) (n', s').
             if \<bar>of_int s * 10 ^ (n - k) - x\<bar> < \<bar>of_int s' * 10 ^ (n' - k) - x\<bar> \<or>
                (\<bar>of_int s * 10 ^ (n - k) - x\<bar> = \<bar>of_int s' * 10 ^ (n' - k) - x\<bar> \<and> even s)
             then (n, s) else (n', s'))
          (tl cs) (hd cs)"

definition Number_toString_large :: "rat \<Rightarrow> string" where
  "Number_toString_large x =
     (let d = length (decimalRepresentation \<lfloor>x\<rfloor>);
          k = (case find (\<lambda>k. toString_candidates x k \<noteq> []) [1 ..< d] of
                 None \<Rightarrow> d | Some k \<Rightarrow> k);
          (n, s) = (if k = d then (d, \<lfloor>x\<rfloor>) else closest x k (toString_candidates x k));
          ds = decimalRepresentation s
      in (if k = 1 then ds else take 1 ds @ ''.'' @ drop 1 ds) @ ''e+'' @
         decimalRepresentation (int n - 1))"

text \<open>
  \<^verbatim>\<open>toFixed\<close> with \<open>f\<close> fraction digits (0 to 100; \<^verbatim>\<open>formatDecimal\<close> passes 2). A Number
  that is not finite is written by name. Otherwise the sign is taken from the real value,
  so the negative zero has none; from \<open>10 ^ 21\<close> on the value is written in exponent
  notation; below, \<open>n\<close> is the integer nearest to the value times \<open>10 ^ f\<close>, the larger
  one of two, and its digits are padded to \<open>f + 1\<close> and split by the point.
\<close>

definition toFixed_finite :: "rat \<Rightarrow> nat \<Rightarrow> string" where
  "toFixed_finite x f =
     (let s = (if x < 0 then ''-'' else []);
          a = \<bar>x\<bar>
      in if 10 ^ 21 \<le> a then s @ Number_toString_large a
         else let n = \<lfloor>a * 10 ^ f + 1 / 2\<rfloor>;
                  m = (if n = 0 then ''0'' else decimalRepresentation n);
                  m' = (if f \<noteq> 0 \<and> length m \<le> f
                        then replicate (f + 1 - length m) (CHR ''0'') @ m else m)
              in if f \<noteq> 0
                 then s @ take (length m' - f) m' @ ''.'' @ drop (length m' - f) m'
                 else s @ m')"

definition toFixed :: "Number \<Rightarrow> nat \<Rightarrow> string" where
  "toFixed x f =
     (case x of
        NaN \<Rightarrow> ''NaN''
      | PosInfinity \<Rightarrow> ''Infinity''
      | NegInfinity \<Rightarrow> ''-Infinity''
      | NegZero \<Rightarrow> toFixed_finite 0 f
      | Finite q \<Rightarrow> toFixed_finite q f)"

subsection \<open>formatDecimal\<close>

definition formatDecimal :: "string \<Rightarrow> string" where
  "formatDecimal v =
     (let num = parseFloat v in if isNaN num then ''0.00'' else toFixed num 2)"

text \<open>A string that ends in a point and two digits, with no other point.\<close>

definition two_decimals :: "string \<Rightarrow> bool" where
  "two_decimals s =
     (case rev s of
        d2 # d1 # p # rest \<Rightarrow>
          DecimalDigit d2 \<and> DecimalDigit d1 \<and> p = CHR ''.'' \<and> rest \<noteq> [] \<and>
          list_all (\<lambda>c. c \<noteq> CHR ''.'') rest
      | _ \<Rightarrow> False)"

section \<open>Storage layer (server/storage.ts)\<close>

text \<open>
  Every function takes the database and returns the new one. \<^verbatim>\<open>nanoid()\<close> and
  \<^verbatim>\<open>new Date()\<close> are read from the environment: the fresh id and the clock reading are
  arguments (\<open>newId\<close>, \<open>now\<close>), and the clock readings within one call are taken to be
  the same. The read paths join the owner's or bidder's display fields and reformat
  prices with \<open>formatDecimal\<close> for the response; the rows themselves are what the model
  returns.
\<close>

definition getUser :: "db \<Rightarrow> string \<Rightarrow> user option" where
  "getUser s uid = find (\<lambda>u. user_id u = uid) (users s)"

definition getArtwork :: "db \<Rightarrow> string \<Rightarrow> artwork option" where
  "getArtwork s aid = find (\<lambda>a. artwork_id a = aid) (artworks s)"

definition getUserArtworks :: "db \<Rightarrow> string \<Rightarrow> artwork list" where
  "getUserArtworks s uid =
     rev (sort_key artwork_createdAt (filter (\<lambda>a. artistId a = uid) (artworks s)))"

definition getArtworkBids :: "db \<Rightarrow> string \<Rightarrow> bid list" where
  "getArtworkBids s aid =
     rev (sort_key bid_createdAt (filter (\<lambda>b. artworkId b = aid) (bids s)))"

definition createArtwork ::
  "InsertArtwork \<Rightarrow> string \<Rightarrow> Date \<Rightarrow> db \<Rightarrow> error + artwork \<times> db" where
  "createArtwork artworkData newId now s =
     (case (startingPrice artworkData, endTime artworkData) of
        (Some price, Some ends) \<Rightarrow>
          (let row = \<lparr>title = title artworkData,
                      description = description artworkData,
                      imageUrl = imageUrl artworkData,
                      imagePublicId = imagePublicId artworkData,
                      category = category artworkData,
                      startingPrice = price,
                      endTime = ends,
                      artistId = artistId artworkData,
                      status = status artworkData,
                      artwork_id = newId,
                      currentPrice = price,
                      auctionStart = None,
                      isActive = Some True,
                      artwork_createdAt = now,
                      artwork_updatedAt = now\<rparr>
           in if newId \<in> set (map artwork_id (artworks s)) \<or> \<not> numeric_10_2 price
              then Inl DbError
              else Inr (row, s\<lparr>artworks := artworks s @ [row]\<rparr>))
      | _ \<Rightarrow> Inl DbError)"

text \<open>
  The two updates by id. A price out of the column's range is refused and nothing is
  written; a status is one of the four of the enumeration and is always written.
\<close>

definition updateArtworkPrice :: "string \<Rightarrow> decimal \<Rightarrow> Date \<Rightarrow> db \<Rightarrow> error + db" where
  "updateArtworkPrice aid price now s =
     (if \<not> numeric_10_2 price then Inl DbError
      else Inr (s\<lparr>artworks :=
                   map (\<lambda>a. if artwork_id a = aid
                             then a\<lparr>currentPrice := price, artwork_updatedAt := now\<rparr>
                             else a)
                       (artworks s)\<rparr>))"

definition updateArtworkStatus :: "string \<Rightarrow> ArtworkStatus \<Rightarrow> Date \<Rightarrow> db \<Rightarrow> db" where
  "updateArtworkStatus aid st now s =
     s\<lparr>artworks :=
         map (\<lambda>a. if artwork_id a = aid
                   then a\<lparr>status := st, artwork_updatedAt := now\<rparr> else a)
             (artworks s)\<rparr>"

text \<open>
  \<^verbatim>\<open>deleteArtwork\<close> first asks the image store to destroy the row's image (the first
  component: the public id it passes, if the row exists and has one); a failure there is
  caught and logged. Then it deletes the row, and only the row.
\<close>

definition deleteArtwork :: "string \<Rightarrow> db \<Rightarrow> string option \<times> db" where
  "deleteArtwork aid s =
     ((case getArtwork s aid of
         None \<Rightarrow> None
       | Some a \<Rightarrow> if imagePublicId a \<noteq> [] then Some (imagePublicId a) else None),
      s\<lparr>artworks := filter (\<lambda>a. artwork_id a \<noteq> aid) (artworks s)\<rparr>)"

text \<open>
  The sweep: the rows selected once, at \<open>now\<close>, then one status update per selected row,
  each deciding on the bids it reads at that moment.
\<close>

definition expiredArtworks :: "Date \<Rightarrow> db \<Rightarrow> artwork list" where
  "expiredArtworks now s =
     filter (\<lambda>a. status a = ACTIVE \<and> endTime a < now) (artworks s)"

definition processExpired_step :: "Date \<Rightarrow> artwork \<Rightarrow> db \<Rightarrow> db" where
  "processExpired_step now a s =
     (if length (getArtworkBids s (artwork_id a)) > 0
      then updateArtworkStatus (artwork_id a) SOLD now s
      else updateArtworkStatus (artwork_id a) EXPIRED now s)"

definition processExpiredArtworks :: "Date \<Rightarrow> db \<Rightarrow> db" where
  "processExpiredArtworks now s = fold (processExpired_step now) (expiredArtworks now s) s"

text \<open>
  \<^verbatim>\<open>createBid\<close> inserts the bid row and then sets the listing's price to the bid's amount.
  The update binds the amount the insert has just accepted, so it is never the update
  that refuses (\<open>createBid_refused\<close>): an error leaves the database as it was.
\<close>

definition createBid :: "InsertBid \<Rightarrow> string \<Rightarrow> Date \<Rightarrow> db \<Rightarrow> error + bid \<times> db" where
  "createBid bidData newId now s =
     (let row = \<lparr>artworkId = artworkId bidData,
                 bidderId = bidderId bidData,
                 amount = amount bidData,
                 bid_id = newId,
                 bid_createdAt = now\<rparr>
      in if newId \<in> set (map bid_id (bids s)) \<or> \<not> numeric_10_2 (amount bidData)
         then Inl DbError
         else (case updateArtworkPrice (artworkId bidData) (amount bidData) now
                       (s\<lparr>bids := bids s @ [row]\<rparr>) of
                 Inl e \<Rightarrow> Inl e
               | Inr s' \<Rightarrow> Inr (row, s')))"

text \<open>
  The account cascade. Its second argument reaches the first log line and nothing else;
  the result is the console output (the lines without their leading pictograph) and the
  new database.
\<close>

definition deleteUserArtwork :: "string \<Rightarrow> db \<Rightarrow> db" where
  "deleteUserArtwork aid s =
     (let s1 = s\<lparr>bids := filter (\<lambda>b. artworkId b \<noteq> aid) (bids s)\<rparr>
      in s1\<lparr>artworks := filter (\<lambda>a. artwork_id a \<noteq> aid) (artworks s1)\<rparr>)"

definition deleteUserAccount :: "string \<Rightarrow> bool \<Rightarrow> db \<Rightarrow> string list \<times> db" where
  "deleteUserAccount userId forceDelete s =
     (let s1 = s\<lparr>bids := filter (\<lambda>b. bidderId b \<noteq> userId) (bids s)\<rparr>;
          userArtworks = map artwork_id (filter (\<lambda>a. artistId a = userId) (artworks s1));
          s2 = fold deleteUserArtwork userArtworks s1;
          s3 = s2\<lparr>users := filter (\<lambda>u. user_id u \<noteq> userId) (users s2)\<rparr>
      in ([''Starting account deletion for user '' @ userId @ '' (force: '' @
             (if forceDelete then ''true'' else ''false'') @ '')'',
           ''Deleting user's bids...'',
           ''Deleting user's artworks...'',
           ''Deleting user record...'',
           ''Successfully deleted all data for user '' @ userId],
          s3))"

section \<open>Middleware and route handlers (server/roleMiddleware.ts, server/routes.ts)\<close>

text \<open>
  A handler takes the caller's id as the identity provider resolved it, and answers with
  a status code and a body. A request field is \<open>None\<close> when it is absent or not a
  string. The handlers' notifications to WebSocket clients do not touch the database.
\<close>

datatype payload =
    Message string
  | BidJson bid
  | ArtworkJson artwork
  | ActiveArtworks "(string \<times> string \<times> nat) list"
  | NoBody

type_synonym response = "nat \<times> payload"

definition requireRole :: "UserRole \<Rightarrow> string \<Rightarrow> db \<Rightarrow> response option" where
  "requireRole requiredRole userId s =
     (if userId = [] then Some (401, Message ''Authentication required'')
      else case getUser s userId of
        None \<Rightarrow> Some (404, Message ''User not found'')
      | Some u \<Rightarrow>
          if requiredRole = ADMIN \<and> role u \<noteq> ADMIN
          then Some (403, Message ''Admin access required'')
          else if requiredRole = ARTIST \<and> role u \<noteq> ARTIST \<and> role u \<noteq> ADMIN
          then Some (403, Message ''Artist access required'')
          else None)"

definition requireArtworkOwnership :: "string \<Rightarrow> string \<Rightarrow> db \<Rightarrow> response option" where
  "requireArtworkOwnership userId aid s =
     (if userId = [] \<or> aid = [] then Some (400, Message ''Invalid request'')
      else case getUser s userId of
        None \<Rightarrow> Some (404, Message ''User not found'')
      | Some u \<Rightarrow>
          if role u = ADMIN then None
          else case getArtwork s aid of
            None \<Rightarrow> Some (404, Message ''Artwork not found'')
          | Some a \<Rightarrow>
              if artistId a \<noteq> userId
              then Some (403, Message ''You can only modify your own artworks'')
              else None)"

subsection \<open>POST /api/artworks\<close>


text \<open>
  \<^verbatim>\<open>insertArtworkSchema\<close> wants six strings of at least one character and two strings of
  any kind, the starting price and the end time; the status defaults to ACTIVE. A field
  is \<open>None\<close> when it is absent or not a string; a price or end time that is a string
  carries what is read from it, as in \<^verbatim>\<open>InsertArtwork\<close>.
\<close>

definition min_1 :: "string option \<Rightarrow> bool" where
  "min_1 x = (case x of None \<Rightarrow> False | Some v \<Rightarrow> length v \<ge> 1)"




subsection \<open>DELETE /api/artworks/:id and DELETE /api/admin/artworks/:id\<close>

definition delete_api_artworks :: "string \<Rightarrow> string \<Rightarrow> Date \<Rightarrow> db \<Rightarrow> response \<times> db" where
  "delete_api_artworks userId aid now s =
     (case requireArtworkOwnership userId aid s of
        Some r \<Rightarrow> (r, s)
      | None \<Rightarrow>
          (case getArtwork s aid of
             None \<Rightarrow> ((404, Message ''Artwork not found''), s)
           | Some a \<Rightarrow>
               if artistId a \<noteq> userId
               then ((403, Message ''You can only delete your own artworks''), s)
               else if now \<ge> endTime a
               then ((400, Message ''Cannot delete artwork after auction has ended''), s)
               else if length (getArtworkBids s aid) > 0
               then ((400, Message ''Cannot delete artwork with existing bids''), s)
               else ((204, NoBody), snd (deleteArtwork aid s))))"

definition delete_api_admin_artworks :: "string \<Rightarrow> string \<Rightarrow> db \<Rightarrow> response \<times> db" where
  "delete_api_admin_artworks userId aid s =
     (case requireRole ADMIN userId s of
        Some r \<Rightarrow> (r, s)
      | None \<Rightarrow>
          (case getArtwork s aid of
             None \<Rightarrow> ((404, Message ''Artwork not found''), s)
           | Some a \<Rightarrow> ((204, NoBody), snd (deleteArtwork aid s))))"

subsection \<open>POST /api/bids\<close>

record BidBody =
  body_artworkId :: "string option"
  body_amount :: "decimal option"

definition insertBidSchema_parse ::
  "string option \<Rightarrow> string option \<Rightarrow> decimal option \<Rightarrow> error + InsertBid" where
  "insertBidSchema_parse aid uid amt =
     (case (aid, uid, amt) of
        (Some a, Some u, Some v) \<Rightarrow> Inr \<lparr>artworkId = a, bidderId = u, amount = v\<rparr>
      | _ \<Rightarrow> Inl ZodError)"

definition post_api_bids ::
  "string \<Rightarrow> BidBody \<Rightarrow> string \<Rightarrow> Date \<Rightarrow> db \<Rightarrow> response \<times> db" where
  "post_api_bids userId body newId now s =
     (case insertBidSchema_parse (body_artworkId body) (Some userId) (body_amount body) of
        Inl e \<Rightarrow> ((500, Message ''Failed to create bid''), s)
      | Inr validatedData \<Rightarrow>
          (case createBid validatedData newId now s of
             Inl e \<Rightarrow> ((500, Message ''Failed to create bid''), s)
           | Inr (b, s') \<Rightarrow> ((201, BidJson b), s')))"

subsection \<open>DELETE /api/user/account and DELETE /api/admin/users/:userId\<close>

definition activeArtworksWithBids :: "string \<Rightarrow> Date \<Rightarrow> db \<Rightarrow> (string \<times> string \<times> nat) list" where
  "activeArtworksWithBids userId now s =
     map (\<lambda>a. (artwork_id a, title a, length (getArtworkBids s (artwork_id a))))
       (filter (\<lambda>a. length (getArtworkBids s (artwork_id a)) > 0 \<and> now < endTime a)
          (getUserArtworks s userId))"

definition delete_api_user_account :: "string \<Rightarrow> Date \<Rightarrow> db \<Rightarrow> response \<times> db" where
  "delete_api_user_account userId now s =
     (if length (activeArtworksWithBids userId now s) > 0
      then ((400, ActiveArtworks (activeArtworksWithBids userId now s)), s)
      else ((204, NoBody), snd (deleteUserAccount userId False s)))"

definition delete_api_admin_users :: "string \<Rightarrow> string \<Rightarrow> db \<Rightarrow> response \<times> db" where
  "delete_api_admin_users adminId userId s =
     (case requireRole ADMIN adminId s of
        Some r \<Rightarrow> (r, s)
      | None \<Rightarrow>
          if adminId = userId
          then ((400, Message ''Admins cannot delete their own accounts through this endpoint. Use the regular account deletion.''), s)
          else case getUser s userId of
            None \<Rightarrow> ((404, Message ''User not found''), s)
          | Some u \<Rightarrow> ((204, NoBody), snd (deleteUserAccount userId True s)))"

section \<open>Notions the properties are stated with\<close>

text \<open>
  The price invariant of a database, and the operations that touch a price or a status:
  a sequence of them runs from left to right, a refused insert or update leaving the
  database as it was.
\<close>

definition price_invariant :: "db \<Rightarrow> bool" where
  "price_invariant s = list_all (\<lambda>a. startingPrice a \<le> currentPrice a) (artworks s)"

datatype operation =
    Create InsertArtwork string Date
  | BidCommit InsertBid string Date
  | PriceUpdate string decimal Date
  | Sweep Date

fun apply_operation :: "operation \<Rightarrow> db \<Rightarrow> db" where
  "apply_operation (Create d newId now) s =
     (case createArtwork d newId now s of Inl e \<Rightarrow> s | Inr (a, s') \<Rightarrow> s')"
| "apply_operation (BidCommit d newId now) s =
     (case createBid d newId now s of Inl e \<Rightarrow> s | Inr (b, s') \<Rightarrow> s')"
| "apply_operation (PriceUpdate aid price now) s =
     (case updateArtworkPrice aid price now s of Inl e \<Rightarrow> s | Inr s' \<Rightarrow> s')"
| "apply_operation (Sweep now) s = processExpiredArtworks now s"

definition run :: "operation list \<Rightarrow> db \<Rightarrow> db" where
  "run ops s = fold apply_operation ops s"

text \<open>
  An operation keeps to the starting price when the amount it writes is not below the
  starting price of any listing it writes to.
\<close>

fun keeps_to_start :: "operation \<Rightarrow> db \<Rightarrow> bool" where
  "keeps_to_start (BidCommit d newId now) s =
     list_all (\<lambda>a. artwork_id a = artworkId d \<longrightarrow> startingPrice a \<le> amount d) (artworks s)"
| "keeps_to_start (PriceUpdate aid price now) s =
     list_all (\<lambda>a. artwork_id a = aid \<longrightarrow> startingPrice a \<le> price) (artworks s)"
| "keeps_to_start (Create d newId now) s = True"
| "keeps_to_start (Sweep now) s = True"

fun all_keep_to_start :: "operation list \<Rightarrow> db \<Rightarrow> bool" where
  "all_keep_to_start [] s = True"
| "all_keep_to_start (x # xs) s =
     (keeps_to_start x s \<and> all_keep_to_start xs (apply_operation x s))"

text \<open>
  The lifecycle the specification draws, PENDING to ACTIVE to SOLD or EXPIRED. No function
  of the code computes it; it is here to say which status changes are out of order.
\<close>

fun lifecycle_next :: "ArtworkStatus \<Rightarrow> ArtworkStatus \<Rightarrow> bool" where
  "lifecycle_next PENDING ACTIVE = True"
| "lifecycle_next ACTIVE SOLD = True"
| "lifecycle_next ACTIVE EXPIRED = True"
| "lifecycle_next _ _ = False"

text \<open>The bids whose listing is not in the table.\<close>

definition orphanBids :: "db \<Rightarrow> bid list" where
  "orphanBids s = filter (\<lambda>b. artworkId b \<notin> set (map artwork_id (artworks s))) (bids s)"

text \<open>The database an accepted price update leaves.\<close>

definition with_price :: "string \<Rightarrow> decimal \<Rightarrow> Date \<Rightarrow> db \<Rightarrow> db" where
  "with_price aid price now s =
     s\<lparr>artworks :=
         map (\<lambda>a. if artwork_id a = aid
                   then a\<lparr>currentPrice := price, artwork_updatedAt := now\<rparr> else a)
             (artworks s)\<rparr>"

text \<open>
  What one status update of the sweep does to one row, given the bids: the row with the
  id gets the outcome, any other row stays.
\<close>

definition settle :: "bid list \<Rightarrow> Date \<Rightarrow> string \<Rightarrow> artwork \<Rightarrow> artwork" where
  "settle B now i r =
     (if artwork_id r = i
      then r\<lparr>status := (if \<exists>b\<in>set B. artworkId b = i then SOLD else EXPIRED),
             artwork_updatedAt := now\<rparr>
      else r)"

subsection \<open>Sample rows\<close>

definition sample_artwork ::
  "string \<Rightarrow> string \<Rightarrow> decimal \<Rightarrow> decimal \<Rightarrow> ArtworkStatus \<Rightarrow> Date \<Rightarrow> artwork" where
  "sample_artwork i owner start cur st ends =
     \<lparr>title = ''Sunset'', description = ''Oil on canvas'',
      imageUrl = ''https://res.cloudinary.com/demo/sunset.png'', imagePublicId = ''sunset'',
      category = ''Paintings'', startingPrice = start, endTime = ends, artistId = owner,
      status = st, artwork_id = i, currentPrice = cur, auctionStart = None,
      isActive = Some True, artwork_createdAt = 0, artwork_updatedAt = 0\<rparr>"

definition sample_bid :: "string \<Rightarrow> string \<Rightarrow> string \<Rightarrow> decimal \<Rightarrow> Date \<Rightarrow> bid" where
  "sample_bid i aid uid amt t =
     \<lparr>artworkId = aid, bidderId = uid, amount = amt, bid_id = i, bid_createdAt = t\<rparr>"

definition sample_user :: "string \<Rightarrow> UserRole \<Rightarrow> user" where
  "sample_user i r =
     \<lparr>user_id = i, clerkId = i, email = i @ ''@example.org'', user_name = None, role = r,
      user_createdAt = 0, user_updatedAt = 0\<rparr>"

text \<open>
  \<open>sample_db\<close> at clock reading 100: listing a1 has ended with one bid, a2 has ended with
  none, a3 is open until 5000 at its starting price of 100.00. \<open>closed_db\<close> holds a
  sold listing, an expired one, one that has ended but is not yet swept, and a pending one.
\<close>

definition sample_db :: db where
  "sample_db =
     \<lparr>users = [sample_user ''u0'' ADMIN, sample_user ''u1'' ARTIST, sample_user ''u2'' BIDDER],
      artworks = [sample_artwork ''a1'' ''u1'' 10000 20000 ACTIVE 50,
                  sample_artwork ''a2'' ''u1'' 10000 10000 ACTIVE 50,
                  sample_artwork ''a3'' ''u1'' 10000 10000 ACTIVE 5000],
      bids = [sample_bid ''b1'' ''a1'' ''u2'' 20000 10]\<rparr>"

definition closed_db :: db where
  "closed_db =
     \<lparr>users = [sample_user ''u0'' ADMIN, sample_user ''u1'' ARTIST, sample_user ''u2'' BIDDER],
      artworks = [sample_artwork ''a1'' ''u1'' 10000 20000 SOLD 50,
                  sample_artwork ''a2'' ''u1'' 10000 10000 EXPIRED 50,
                  sample_artwork ''a3'' ''u1'' 10000 10000 ACTIVE 50,
                  sample_artwork ''a4'' ''u1'' 10000 10000 PENDING 5000],
      bids = [sample_bid ''b1'' ''a1'' ''u2'' 20000 10]\<rparr>"

definition empty_db :: db where
  "empty_db = \<lparr>users = [], artworks = [], bids = []\<rparr>"

definition sample_listing :: "decimal \<Rightarrow> Date \<Rightarrow> InsertArtwork" where
  "sample_listing price ends =
     \<lparr>title = ''Sunset'', description = ''Oil on canvas'',
      imageUrl = ''https://res.cloudinary.com/demo/sunset.png'', imagePublicId = ''sunset'',
      category = ''Paintings'', startingPrice = Some price, endTime = Some ends,
      artistId = ''u1'', status = ACTIVE\<rparr>"


section \<open>Properties\<close>

subsection \<open>Lookups after an update by id\<close>

lemma find_map_upd_same:
  assumes "\<And>a. k (f a) = k a"
  shows "find (\<lambda>a. k a = i) (map (\<lambda>a. if k a = i then f a else a) xs) =
           map_option f (find (\<lambda>a. k a = i) xs)"
  by (induction xs) (simp_all add: assms)

lemma find_map_upd_other:
  assumes "\<And>a. k (f a) = k a" and "j \<noteq> i"
  shows "find (\<lambda>a. k a = j) (map (\<lambda>a. if k a = i then f a else a) xs) =
           find (\<lambda>a. k a = j) xs"
  by (induction xs) (simp_all add: assms)

lemma getArtwork_updateArtworkStatus_same:
  "getArtwork s aid = Some a \<Longrightarrow>
     getArtwork (updateArtworkStatus aid st now s) aid =
       Some (a\<lparr>status := st, artwork_updatedAt := now\<rparr>)"
  unfolding getArtwork_def updateArtworkStatus_def
  by (simp add: find_map_upd_same [where k = artwork_id])

lemma getArtwork_updateArtworkStatus_other:
  "i \<noteq> aid \<Longrightarrow> getArtwork (updateArtworkStatus aid st now s) i = getArtwork s i"
  unfolding getArtwork_def updateArtworkStatus_def
  by (simp add: find_map_upd_other [where k = artwork_id])

lemma updateArtworkPrice_Inr:
  "numeric_10_2 p \<Longrightarrow> updateArtworkPrice aid p now s = Inr (with_price aid p now s)"
  by (simp add: updateArtworkPrice_def with_price_def)

lemma updateArtworkPrice_Inl:
  "\<not> numeric_10_2 p \<Longrightarrow> updateArtworkPrice aid p now s = Inl DbError"
  by (simp add: updateArtworkPrice_def)

lemma getArtwork_with_price_same:
  "getArtwork s aid = Some a \<Longrightarrow>
     getArtwork (with_price aid p now s) aid =
       Some (a\<lparr>currentPrice := p, artwork_updatedAt := now\<rparr>)"
  unfolding getArtwork_def with_price_def
  by (simp add: find_map_upd_same [where k = artwork_id])

lemma bids_with_price [simp]: "bids (with_price aid p now s) = bids s"
  by (simp add: with_price_def)

lemma getArtwork_bids_irrelevant [simp]: "getArtwork (s\<lparr>bids := B\<rparr>) aid = getArtwork s aid"
  by (simp add: getArtwork_def)

lemma createBid_Inr:
  assumes "newId \<notin> set (map bid_id (bids s))" and "numeric_10_2 (amount d)"
  shows "createBid d newId now s =
     Inr (\<lparr>artworkId = artworkId d, bidderId = bidderId d, amount = amount d,
           bid_id = newId, bid_createdAt = now\<rparr>,
          with_price (artworkId d) (amount d) now
            (s\<lparr>bids := bids s @ [\<lparr>artworkId = artworkId d, bidderId = bidderId d,
                 amount = amount d, bid_id = newId, bid_createdAt = now\<rparr>]\<rparr>))"
  using assms by (simp add: createBid_def Let_def updateArtworkPrice_Inr)

lemma createBid_refused:
  "createBid d newId now s = Inl e \<longleftrightarrow>
     e = DbError \<and> (newId \<in> set (map bid_id (bids s)) \<or> \<not> numeric_10_2 (amount d))"
  by (auto simp: createBid_def Let_def updateArtworkPrice_Inr)

lemma set_getArtworkBids:
  "set (getArtworkBids s aid) = {b \<in> set (bids s). artworkId b = aid}"
  by (auto simp: getArtworkBids_def)

subsection \<open>The expiration sweep\<close>

text \<open>
  The loop of \<open>processExpiredArtworks\<close> never touches the bids, so every status update
  of one run decides on the same bids, and the run is one \<open>map\<close> over the table.
\<close>

lemma getArtworkBids_nonempty:
  "length (getArtworkBids s aid) > 0 \<longleftrightarrow> (\<exists>b\<in>set (bids s). artworkId b = aid)"
  by (auto simp: getArtworkBids_def filter_empty_conv)

lemma bids_updateArtworkStatus [simp]: "bids (updateArtworkStatus aid st now s) = bids s"
  by (simp add: updateArtworkStatus_def)

lemma users_updateArtworkStatus [simp]: "users (updateArtworkStatus aid st now s) = users s"
  by (simp add: updateArtworkStatus_def)

lemma processExpired_step_settle:
  "processExpired_step now a s =
     s\<lparr>artworks := map (settle (bids s) now (artwork_id a)) (artworks s)\<rparr>"
  unfolding processExpired_step_def getArtworkBids_nonempty
  by (auto simp: updateArtworkStatus_def settle_def)

lemma fold_processExpired_step:
  "fold (processExpired_step now) xs s =
     s\<lparr>artworks := map (fold (\<lambda>a. settle (bids s) now (artwork_id a)) xs) (artworks s)\<rparr>"
proof (induction xs arbitrary: s)
  case Nil
  show ?case by simp
next
  case (Cons x xs)
  let ?s1 = "processExpired_step now x s"
  have s1: "?s1 = s\<lparr>artworks := map (settle (bids s) now (artwork_id x)) (artworks s)\<rparr>"
    by (rule processExpired_step_settle)
  have "fold (processExpired_step now) (x # xs) s = fold (processExpired_step now) xs ?s1"
    by simp
  also have "\<dots> = ?s1\<lparr>artworks :=
      map (fold (\<lambda>a. settle (bids ?s1) now (artwork_id a)) xs) (artworks ?s1)\<rparr>"
    by (rule Cons.IH)
  also have "\<dots> = s\<lparr>artworks :=
      map (fold (\<lambda>a. settle (bids s) now (artwork_id a)) (x # xs)) (artworks s)\<rparr>"
    unfolding s1 by simp
  finally show ?case .
qed

lemma fold_settle_other:
  "artwork_id r \<notin> artwork_id ` set xs \<Longrightarrow>
     fold (\<lambda>a. settle B now (artwork_id a)) xs r = r"
  by (induction xs arbitrary: r) (auto simp: settle_def)

lemma settle_id [simp]: "artwork_id (settle B now i r) = artwork_id r"
  by (simp add: settle_def)

lemma fold_settle_hit:
  "artwork_id r \<in> artwork_id ` set xs \<Longrightarrow>
     fold (\<lambda>a. settle B now (artwork_id a)) xs r =
       r\<lparr>status := (if \<exists>b\<in>set B. artworkId b = artwork_id r then SOLD else EXPIRED),
         artwork_updatedAt := now\<rparr>"
proof (induction xs arbitrary: r)
  case Nil
  then show ?case by simp
next
  case (Cons x xs)
  let ?r1 = "settle B now (artwork_id x) r"
  have unfold: "fold (\<lambda>a. settle B now (artwork_id a)) (x # xs) r =
      fold (\<lambda>a. settle B now (artwork_id a)) xs ?r1"
    by simp
  show ?case
  proof (cases "artwork_id r \<in> artwork_id ` set xs")
    case True
    then have "artwork_id ?r1 \<in> artwork_id ` set xs" by simp
    then have "fold (\<lambda>a. settle B now (artwork_id a)) xs ?r1 =
      ?r1\<lparr>status := (if \<exists>b\<in>set B. artworkId b = artwork_id ?r1 then SOLD else EXPIRED),
         artwork_updatedAt := now\<rparr>"
      by (rule Cons.IH)
    also have "\<dots> = r\<lparr>status := (if \<exists>b\<in>set B. artworkId b = artwork_id r then SOLD else EXPIRED),
         artwork_updatedAt := now\<rparr>"
      by (simp add: settle_def)
    finally show ?thesis unfolding unfold .
  next
    case False
    with Cons.prems have eq: "artwork_id r = artwork_id x" by auto
    from False have "artwork_id ?r1 \<notin> artwork_id ` set xs" by simp
    then have "fold (\<lambda>a. settle B now (artwork_id a)) xs ?r1 = ?r1"
      by (rule fold_settle_other)
    also have "\<dots> = r\<lparr>status := (if \<exists>b\<in>set B. artworkId b = artwork_id r then SOLD else EXPIRED),
         artwork_updatedAt := now\<rparr>"
      using eq by (simp add: settle_def)
    finally show ?thesis unfolding unfold .
  qed
qed

lemma selected_iff:
  assumes "distinct (map artwork_id (artworks s))" and "r \<in> set (artworks s)"
  shows "artwork_id r \<in> artwork_id ` set (expiredArtworks now s) \<longleftrightarrow>
           status r = ACTIVE \<and> endTime r < now"
proof
  assume "artwork_id r \<in> artwork_id ` set (expiredArtworks now s)"
  then obtain r' where r': "r' \<in> set (artworks s)" "status r' = ACTIVE" "endTime r' < now"
    "artwork_id r' = artwork_id r"
    by (auto simp: expiredArtworks_def)
  from assms(1) have "inj_on artwork_id (set (artworks s))"
    by (simp add: distinct_map)
  with r' assms(2) have "r' = r" by (auto dest: inj_onD)
  with r' show "status r = ACTIVE \<and> endTime r < now" by simp
next
  assume "status r = ACTIVE \<and> endTime r < now"
  with assms(2) show "artwork_id r \<in> artwork_id ` set (expiredArtworks now s)"
    by (auto simp: expiredArtworks_def)
qed

text \<open>
  The primary key of \<^verbatim>\<open>artworks\<close>: no operation of the model gives two rows the same id,
  so every database reached from the empty one has distinct ids.
\<close>

lemma fold_settle_id:
  "artwork_id (fold (\<lambda>a. settle B now (artwork_id a)) xs r) = artwork_id r"
  by (induction xs arbitrary: r) simp_all

lemma artwork_ids_processExpiredArtworks:
  "map artwork_id (artworks (processExpiredArtworks now s)) = map artwork_id (artworks s)"
  by (simp add: processExpiredArtworks_def fold_processExpired_step fold_settle_id comp_def)

lemma artwork_ids_with_price:
  "map artwork_id (artworks (with_price aid p now s)) = map artwork_id (artworks s)"
  by (simp add: with_price_def comp_def if_distrib [of artwork_id] cong: if_cong)

lemma artwork_ids_distinct_step:
  assumes "distinct (map artwork_id (artworks s))"
  shows "distinct (map artwork_id (artworks (apply_operation x s)))"
proof (cases x)
  case (Create d newId now)
  with assms show ?thesis
    by (auto simp: createArtwork_def Let_def split: option.splits)
next
  case (BidCommit d newId now)
  show ?thesis
  proof (cases "newId \<notin> set (map bid_id (bids s)) \<and> numeric_10_2 (amount d)")
    case True
    then have "createBid d newId now s =
      Inr (\<lparr>artworkId = artworkId d, bidderId = bidderId d, amount = amount d,
           bid_id = newId, bid_createdAt = now\<rparr>,
          with_price (artworkId d) (amount d) now
            (s\<lparr>bids := bids s @ [\<lparr>artworkId = artworkId d, bidderId = bidderId d,
                 amount = amount d, bid_id = newId, bid_createdAt = now\<rparr>]\<rparr>))"
      by (simp add: createBid_Inr)
    with BidCommit assms show ?thesis
      by (simp add: artwork_ids_with_price)
  next
    case False
    then have "createBid d newId now s = Inl DbError"
      by (simp add: createBid_refused)
    with BidCommit assms show ?thesis by simp
  qed
next
  case (PriceUpdate aid p now)
  with assms show ?thesis
    by (cases "numeric_10_2 p")
      (simp_all add: updateArtworkPrice_Inr updateArtworkPrice_Inl artwork_ids_with_price)
next
  case (Sweep now)
  with assms show ?thesis
    by (simp add: artwork_ids_processExpiredArtworks)
qed

lemma artwork_ids_distinct_run:
  "distinct (map artwork_id (artworks s)) \<Longrightarrow> distinct (map artwork_id (artworks (run ops s)))"
  unfolding run_def
  by (induction ops arbitrary: s) (simp_all add: artwork_ids_distinct_step)

lemma artwork_ids_distinct_reachable:
  "distinct (map artwork_id (artworks (run ops empty_db)))"
  by (rule artwork_ids_distinct_run) (simp add: empty_db_def)

text \<open>
  Claim C4. With the primary key of \<^verbatim>\<open>artworks\<close> in force (no two rows share an id), one
  run of the sweep at \<open>now\<close> changes exactly the rows that are ACTIVE with an end time
  strictly before \<open>now\<close>: such a row becomes SOLD when some bid references it and EXPIRED
  when none does (and its \<^verbatim>\<open>updatedAt\<close> is touched); every other row, every price, every
  bid and every user stay as they were.
\<close>

theorem sweep_transitions:
  assumes "distinct (map artwork_id (artworks s))"
  shows "artworks (processExpiredArtworks now s) =
           map (\<lambda>a. if status a = ACTIVE \<and> endTime a < now
                     then a\<lparr>status := (if \<exists>b\<in>set (bids s). artworkId b = artwork_id a
                                         then SOLD else EXPIRED),
                            artwork_updatedAt := now\<rparr>
                     else a) (artworks s)
         \<and> map currentPrice (artworks (processExpiredArtworks now s)) =
             map currentPrice (artworks s)
         \<and> bids (processExpiredArtworks now s) = bids s
         \<and> users (processExpiredArtworks now s) = users s"
proof -
  let ?xs = "expiredArtworks now s"
  let ?h = "fold (\<lambda>a. settle (bids s) now (artwork_id a)) ?xs"
  let ?g = "\<lambda>a. if status a = ACTIVE \<and> endTime a < now
                     then a\<lparr>status := (if \<exists>b\<in>set (bids s). artworkId b = artwork_id a
                                         then SOLD else EXPIRED),
                            artwork_updatedAt := now\<rparr>
                     else a"
  have sw: "processExpiredArtworks now s = s\<lparr>artworks := map ?h (artworks s)\<rparr>"
    unfolding processExpiredArtworks_def by (rule fold_processExpired_step)
  have row: "?h r = ?g r" if "r \<in> set (artworks s)" for r
  proof (cases "status r = ACTIVE \<and> endTime r < now")
    case True
    with selected_iff [OF assms that, of now] have "artwork_id r \<in> artwork_id ` set ?xs"
      by blast
    then have "?h r = r\<lparr>status := (if \<exists>b\<in>set (bids s). artworkId b = artwork_id r
                                         then SOLD else EXPIRED),
                            artwork_updatedAt := now\<rparr>"
      by (rule fold_settle_hit)
    also have "\<dots> = ?g r"
      by (rule if_P [symmetric]) (rule True)
    finally show ?thesis .
  next
    case False
    with selected_iff [OF assms that, of now] have "artwork_id r \<notin> artwork_id ` set ?xs"
      by blast
    then have "?h r = r" by (rule fold_settle_other)
    also have "\<dots> = ?g r"
      by (rule if_not_P [symmetric]) (rule False)
    finally show ?thesis .
  qed
  have "map ?h (artworks s) = map ?g (artworks s)"
    by (rule map_cong [OF refl]) (rule row)
  then have A: "artworks (processExpiredArtworks now s) = map ?g (artworks s)"
    unfolding sw by simp
  have cp: "currentPrice (?g r) = currentPrice r" for r
    by simp
  have "map currentPrice (map ?g (artworks s)) = map currentPrice (artworks s)"
    unfolding map_map comp_def cp ..
  then have B: "map currentPrice (artworks (processExpiredArtworks now s)) =
      map currentPrice (artworks s)"
    unfolding A .
  have C: "bids (processExpiredArtworks now s) = bids s"
    unfolding sw by simp
  have D: "users (processExpiredArtworks now s) = users s"
    unfolding sw by simp
  show ?thesis
    by (rule conjI [OF A conjI [OF B conjI [OF C D]]])
qed

text \<open>
  Scenarios 2 and 3 of the specification, on \<open>sample_db\<close> at clock reading 100: a1 (ended,
  one bid of 200.00) becomes SOLD and keeps its price, a2 (ended, no bid) becomes EXPIRED,
  a3 (open) stays ACTIVE.
\<close>

theorem sweep_transitions_witness:
  "distinct (map artwork_id (artworks sample_db))
   \<and> map status (artworks (processExpiredArtworks 100 sample_db)) = [SOLD, EXPIRED, ACTIVE]
   \<and> map currentPrice (artworks (processExpiredArtworks 100 sample_db)) = [20000, 10000, 10000]"
proof -
  have d: "distinct (map artwork_id (artworks sample_db))"
    by (simp add: sample_db_def sample_artwork_def)
  note t = sweep_transitions [OF d, of 100]
  have "map status (artworks (processExpiredArtworks 100 sample_db)) = [SOLD, EXPIRED, ACTIVE]"
    unfolding conjunct1 [OF t] by (simp add: sample_db_def sample_artwork_def sample_bid_def)
  moreover
  have "map currentPrice (artworks (processExpiredArtworks 100 sample_db)) = [20000, 10000, 10000]"
    unfolding conjunct1 [OF conjunct2 [OF t]] by (simp add: sample_db_def sample_artwork_def)
  ultimately show ?thesis using d by simp
qed

text \<open>
  Claim C8. A second run of the sweep at the same clock reading, right after a first one,
  selects no listing and leaves the database exactly as the first run left it. This needs
  no assumption on the table.
\<close>

theorem sweep_idempotent:
  "expiredArtworks now (processExpiredArtworks now s) = []
   \<and> processExpiredArtworks now (processExpiredArtworks now s) = processExpiredArtworks now s"
proof -
  let ?xs = "expiredArtworks now s"
  let ?h = "fold (\<lambda>a. settle (bids s) now (artwork_id a)) ?xs"
  have sw: "processExpiredArtworks now s = s\<lparr>artworks := map ?h (artworks s)\<rparr>"
    by (simp add: processExpiredArtworks_def fold_processExpired_step)
  have settled: "\<not> (status (?h r) = ACTIVE \<and> endTime (?h r) < now)"
    if "r \<in> set (artworks s)" for r
  proof (cases "artwork_id r \<in> artwork_id ` set ?xs")
    case True
    from fold_settle_hit [OF this] show ?thesis by simp
  next
    case False
    then have "?h r = r" by (rule fold_settle_other)
    moreover from False that have "\<not> (status r = ACTIVE \<and> endTime r < now)"
      by (auto simp: expiredArtworks_def)
    ultimately show ?thesis by simp
  qed
  have none: "expiredArtworks now (processExpiredArtworks now s) = []"
    using settled by (auto simp: sw expiredArtworks_def filter_empty_conv)
  have "processExpiredArtworks now (processExpiredArtworks now s) = processExpiredArtworks now s"
    unfolding processExpiredArtworks_def [of now "processExpiredArtworks now s"] none by simp
  with none show ?thesis by simp
qed

theorem sweep_idempotent_witness:
  "length (expiredArtworks 100 sample_db) = 2
   \<and> expiredArtworks 100 (processExpiredArtworks 100 sample_db) = []
   \<and> processExpiredArtworks 100 (processExpiredArtworks 100 sample_db) =
       processExpiredArtworks 100 sample_db"
proof -
  have "length (expiredArtworks 100 sample_db) = 2"
    by (simp add: expiredArtworks_def sample_db_def sample_artwork_def)
  with sweep_idempotent [of 100 sample_db] show ?thesis by simp
qed

subsection \<open>Status updates\<close>

text \<open>
  Claim C7, as the code has it. \<open>updateArtworkStatus\<close> never fails and compares nothing:
  for a listing in the table and any requested status, in the lifecycle's order or not,
  the listing read back carries the requested status (its price untouched), and every
  other id reads as before.
\<close>

theorem updateArtworkStatus_unconditional:
  assumes "getArtwork s aid = Some a"
  shows "(\<exists>a'. getArtwork (updateArtworkStatus aid st now s) aid = Some a' \<and> status a' = st
              \<and> currentPrice a' = currentPrice a)
         \<and> (\<forall>i. i \<noteq> aid \<longrightarrow> getArtwork (updateArtworkStatus aid st now s) i = getArtwork s i)"
  using getArtwork_updateArtworkStatus_same [OF assms, of st now]
    getArtwork_updateArtworkStatus_other [of _ aid st now s]
  by simp

theorem updateArtworkStatus_unconditional_witness:
  "getArtwork closed_db ''a1'' = Some (sample_artwork ''a1'' ''u1'' 10000 20000 SOLD 50)
   \<and> (\<exists>a'. getArtwork (updateArtworkStatus ''a1'' PENDING 60 closed_db) ''a1'' = Some a'
            \<and> status a' = PENDING \<and> currentPrice a' = 20000)"
proof -
  have g: "getArtwork closed_db ''a1'' = Some (sample_artwork ''a1'' ''u1'' 10000 20000 SOLD 50)"
    by (simp add: getArtwork_def closed_db_def sample_artwork_def)
  have "currentPrice (sample_artwork ''a1'' ''u1'' 10000 20000 SOLD 50) = 20000"
    by (simp add: sample_artwork_def)
  with updateArtworkStatus_unconditional [OF g, of PENDING 60] g show ?thesis
    by simp
qed

text \<open>
  The claim as the specification states it fails: SOLD is terminal in the lifecycle, yet
  the sold listing a1 of \<open>closed_db\<close> is set back to ACTIVE.
\<close>

theorem updateArtworkStatus_backwards:
  "\<not> lifecycle_next SOLD ACTIVE
   \<and> map status (artworks closed_db) = [SOLD, EXPIRED, ACTIVE, PENDING]
   \<and> map status (artworks (updateArtworkStatus ''a1'' ACTIVE 60 closed_db)) =
       [ACTIVE, EXPIRED, ACTIVE, PENDING]"
  by (simp add: updateArtworkStatus_def closed_db_def sample_artwork_def)

subsection \<open>Bids\<close>

text \<open>
  Claim C3, as the code has it. \<open>createBid\<close> reads neither the status nor the end time of
  the listing: whatever they are, a bid with a fresh id and an amount in the column's
  range is recorded against the listing, and the listing's price becomes the amount while
  its status and end time stay.
\<close>

theorem createBid_ignores_status:
  assumes fresh: "newId \<notin> set (map bid_id (bids s))"
    and range: "numeric_10_2 (amount d)"
    and listing: "getArtwork s (artworkId d) = Some a"
  shows "\<exists>b s'. createBid d newId now s = Inr (b, s')
           \<and> b \<in> set (getArtworkBids s' (artworkId d))
           \<and> length (bids s') = Suc (length (bids s))
           \<and> getArtwork s' (artworkId d) =
               Some (a\<lparr>currentPrice := amount d, artwork_updatedAt := now\<rparr>)"
proof -
  let ?b = "\<lparr>artworkId = artworkId d, bidderId = bidderId d, amount = amount d,
           bid_id = newId, bid_createdAt = now\<rparr>"
  let ?s1 = "s\<lparr>bids := bids s @ [?b]\<rparr>"
  let ?s' = "with_price (artworkId d) (amount d) now ?s1"
  have r: "createBid d newId now s = Inr (?b, ?s')"
    by (rule createBid_Inr [OF fresh range])
  have m: "?b \<in> set (getArtworkBids ?s' (artworkId d))"
    by (simp add: set_getArtworkBids)
  have l: "length (bids ?s') = Suc (length (bids s))"
    by simp
  have "getArtwork ?s1 (artworkId d) = Some a"
    using listing by simp
  then have g: "getArtwork ?s' (artworkId d) =
      Some (a\<lparr>currentPrice := amount d, artwork_updatedAt := now\<rparr>)"
    by (rule getArtwork_with_price_same)
  from r m l g show ?thesis by blast
qed

theorem createBid_ignores_status_witness:
  "''b2'' \<notin> set (map bid_id (bids closed_db))
   \<and> numeric_10_2 12000
   \<and> getArtwork closed_db ''a2'' = Some (sample_artwork ''a2'' ''u1'' 10000 10000 EXPIRED 50)
   \<and> (\<exists>b s'. createBid \<lparr>artworkId = ''a2'', bidderId = ''u2'', amount = 12000\<rparr> ''b2'' 100
                closed_db = Inr (b, s')
            \<and> b \<in> set (getArtworkBids s' ''a2'')
            \<and> getArtwork s' ''a2'' = Some (sample_artwork ''a2'' ''u1'' 10000 12000 EXPIRED 50
                                              \<lparr>artwork_updatedAt := 100\<rparr>))"
proof -
  let ?d = "\<lparr>artworkId = ''a2'', bidderId = ''u2'', amount = 12000\<rparr>"
  have f: "''b2'' \<notin> set (map bid_id (bids closed_db))"
    by (simp add: closed_db_def sample_bid_def)
  have r: "numeric_10_2 (amount ?d)"
    by (simp add: numeric_10_2_def)
  have g: "getArtwork closed_db (artworkId ?d) =
      Some (sample_artwork ''a2'' ''u1'' 10000 10000 EXPIRED 50)"
    by (simp add: getArtwork_def closed_db_def sample_artwork_def)
  have u: "sample_artwork ''a2'' ''u1'' 10000 10000 EXPIRED 50
      \<lparr>currentPrice := amount ?d, artwork_updatedAt := 100\<rparr> =
      sample_artwork ''a2'' ''u1'' 10000 12000 EXPIRED 50\<lparr>artwork_updatedAt := 100\<rparr>"
    by (simp add: sample_artwork_def)
  from createBid_ignores_status [OF f r g, of 100] f r g show ?thesis
    unfolding u by auto
qed

text \<open>
  The claim as the specification states it fails: on \<open>closed_db\<close> at clock reading 100, a
  bid on the SOLD listing a1 and a bid on a3, whose end time 50 has passed, are both
  answered with 201 and recorded.
\<close>

theorem bid_on_closed_listing_accepted:
  "map status (artworks closed_db) = [SOLD, EXPIRED, ACTIVE, PENDING]
   \<and> map endTime (artworks closed_db) = [50, 50, 50, 5000]
   \<and> post_api_bids ''u2'' \<lparr>body_artworkId = Some ''a1'', body_amount = Some 30000\<rparr> ''b2'' 100
       closed_db =
       ((201, BidJson (sample_bid ''b2'' ''a1'' ''u2'' 30000 100)),
        closed_db\<lparr>artworks := [sample_artwork ''a1'' ''u1'' 10000 30000 SOLD 50
                                  \<lparr>artwork_updatedAt := 100\<rparr>,
                                sample_artwork ''a2'' ''u1'' 10000 10000 EXPIRED 50,
                                sample_artwork ''a3'' ''u1'' 10000 10000 ACTIVE 50,
                                sample_artwork ''a4'' ''u1'' 10000 10000 PENDING 5000],
                   bids := [sample_bid ''b1'' ''a1'' ''u2'' 20000 10,
                            sample_bid ''b2'' ''a1'' ''u2'' 30000 100]\<rparr>)
   \<and> fst (post_api_bids ''u2'' \<lparr>body_artworkId = Some ''a3'', body_amount = Some 30000\<rparr>
            ''b2'' 100 closed_db) =
       (201, BidJson (sample_bid ''b2'' ''a3'' ''u2'' 30000 100))"
  by (simp add: post_api_bids_def insertBidSchema_parse_def createBid_def
      updateArtworkPrice_def numeric_10_2_def closed_db_def sample_artwork_def sample_bid_def
      Let_def)

text \<open>
  Claim C1, as the code has it. The handler of POST /api/bids and \<open>createBid\<close> compare
  the amount with nothing: for an existing listing, a fresh bid id and an amount in the
  column's range, the answer is 201, the bid is appended and the listing's price becomes
  the amount, whether the amount is above, equal to or below the current price.
\<close>

theorem post_api_bids_accepts:
  assumes fresh: "newId \<notin> set (map bid_id (bids s))"
    and range: "numeric_10_2 amt"
    and listing: "getArtwork s aid = Some a"
  shows "\<exists>b s'. post_api_bids uid \<lparr>body_artworkId = Some aid, body_amount = Some amt\<rparr>
                   newId now s = ((201, BidJson b), s')
           \<and> bids s' = bids s @ [b]
           \<and> artworkId b = aid \<and> bidderId b = uid \<and> amount b = amt
           \<and> (\<exists>a'. getArtwork s' aid = Some a' \<and> currentPrice a' = amt)"
proof -
  let ?d = "\<lparr>artworkId = aid, bidderId = uid, amount = amt\<rparr>"
  let ?b = "\<lparr>artworkId = aid, bidderId = uid, amount = amt,
           bid_id = newId, bid_createdAt = now\<rparr>"
  let ?s1 = "s\<lparr>bids := bids s @ [?b]\<rparr>"
  let ?s' = "with_price aid amt now ?s1"
  have p: "insertBidSchema_parse (Some aid) (Some uid) (Some amt) = Inr ?d"
    by (simp add: insertBidSchema_parse_def)
  have "numeric_10_2 (amount ?d)" using range by simp
  from createBid_Inr [OF fresh this, of now]
  have c: "createBid ?d newId now s = Inr (?b, ?s')" by simp
  have r: "post_api_bids uid \<lparr>body_artworkId = Some aid, body_amount = Some amt\<rparr>
             newId now s = ((201, BidJson ?b), ?s')"
    by (simp add: post_api_bids_def p c)
  have "getArtwork ?s1 aid = Some a"
    using listing by simp
  then have g: "getArtwork ?s' aid = Some (a\<lparr>currentPrice := amt, artwork_updatedAt := now\<rparr>)"
    by (rule getArtwork_with_price_same)
  have b: "bids ?s' = bids s @ [?b]" by simp
  have f: "artworkId ?b = aid \<and> bidderId ?b = uid \<and> amount ?b = amt" by simp
  from g have "\<exists>a'. getArtwork ?s' aid = Some a' \<and> currentPrice a' = amt" by simp
  with r b f show ?thesis by blast
qed

text \<open>Scenario 1's accepted bid: 150.00 on the open listing a3 priced 100.00.\<close>

theorem post_api_bids_accepts_witness:
  "''b2'' \<notin> set (map bid_id (bids sample_db))
   \<and> numeric_10_2 15000
   \<and> getArtwork sample_db ''a3'' = Some (sample_artwork ''a3'' ''u1'' 10000 10000 ACTIVE 5000)
   \<and> (\<exists>b s'. post_api_bids ''u2'' \<lparr>body_artworkId = Some ''a3'', body_amount = Some 15000\<rparr>
                ''b2'' 100 sample_db = ((201, BidJson b), s')
            \<and> bids s' = bids sample_db @ [b] \<and> amount b = 15000
            \<and> (\<exists>a'. getArtwork s' ''a3'' = Some a' \<and> currentPrice a' = 15000))"
proof -
  have f: "''b2'' \<notin> set (map bid_id (bids sample_db))"
    by (simp add: sample_db_def sample_bid_def)
  have r: "numeric_10_2 15000"
    by (simp add: numeric_10_2_def)
  have g: "getArtwork sample_db ''a3'' = Some (sample_artwork ''a3'' ''u1'' 10000 10000 ACTIVE 5000)"
    by (simp add: getArtwork_def sample_db_def sample_artwork_def)
  from post_api_bids_accepts [OF f r g, of "''u2''" 100] f r g show ?thesis
    by blast
qed

text \<open>
  The claim as the specification states it fails. Scenario 1's low bid: on \<open>sample_db\<close>,
  where a3 is open and priced 100.00, a bid of 99.99 is answered with 201, recorded, and
  lowers the price to 99.99; a bid of exactly 100.00 is accepted as well.
\<close>

theorem bid_too_low_accepted:
  "map currentPrice (artworks sample_db) = [20000, 10000, 10000]
   \<and> post_api_bids ''u2'' \<lparr>body_artworkId = Some ''a3'', body_amount = Some 9999\<rparr> ''b2'' 100
       sample_db =
       ((201, BidJson (sample_bid ''b2'' ''a3'' ''u2'' 9999 100)),
        sample_db\<lparr>artworks := [sample_artwork ''a1'' ''u1'' 10000 20000 ACTIVE 50,
                                sample_artwork ''a2'' ''u1'' 10000 10000 ACTIVE 50,
                                sample_artwork ''a3'' ''u1'' 10000 9999 ACTIVE 5000
                                  \<lparr>artwork_updatedAt := 100\<rparr>],
                   bids := [sample_bid ''b1'' ''a1'' ''u2'' 20000 10,
                            sample_bid ''b2'' ''a3'' ''u2'' 9999 100]\<rparr>)
   \<and> fst (post_api_bids ''u2'' \<lparr>body_artworkId = Some ''a3'', body_amount = Some 10000\<rparr>
            ''b2'' 100 sample_db) =
       (201, BidJson (sample_bid ''b2'' ''a3'' ''u2'' 10000 100))"
  by (simp add: post_api_bids_def insertBidSchema_parse_def createBid_def
      updateArtworkPrice_def numeric_10_2_def sample_db_def sample_artwork_def sample_bid_def
      Let_def)

subsection \<open>The price invariant\<close>

lemma fold_settle_prices:
  "currentPrice (fold (\<lambda>a. settle B now (artwork_id a)) xs r) = currentPrice r \<and>
   startingPrice (fold (\<lambda>a. settle B now (artwork_id a)) xs r) = startingPrice r"
  by (induction xs arbitrary: r) (simp_all add: settle_def)

lemma price_invariant_createArtwork:
  assumes "price_invariant s" and "createArtwork d newId now s = Inr (a, s')"
  shows "price_invariant s' \<and> currentPrice a = startingPrice a"
  using assms
  by (auto simp: createArtwork_def price_invariant_def Let_def split: if_splits option.splits)

lemma price_invariant_with_price:
  assumes "price_invariant s"
    and "list_all (\<lambda>a. artwork_id a = aid \<longrightarrow> startingPrice a \<le> p) (artworks s)"
  shows "price_invariant (with_price aid p now s)"
  using assms
  by (auto simp: with_price_def price_invariant_def list_all_iff)

lemma price_invariant_createBid:
  assumes "price_invariant s"
    and "list_all (\<lambda>a. artwork_id a = artworkId d \<longrightarrow> startingPrice a \<le> amount d) (artworks s)"
    and "createBid d newId now s = Inr (b, s')"
  shows "price_invariant s'"
proof -
  let ?b = "\<lparr>artworkId = artworkId d, bidderId = bidderId d, amount = amount d,
           bid_id = newId, bid_createdAt = now\<rparr>"
  let ?s1 = "s\<lparr>bids := bids s @ [?b]\<rparr>"
  from assms(3) have ok: "newId \<notin> set (map bid_id (bids s))" "numeric_10_2 (amount d)"
    by (auto simp: createBid_def Let_def split: if_splits)
  from createBid_Inr [OF ok, of now] assms(3)
  have s': "s' = with_price (artworkId d) (amount d) now ?s1"
    by simp
  have "price_invariant ?s1" using assms(1) by (simp add: price_invariant_def)
  moreover have "list_all (\<lambda>a. artwork_id a = artworkId d \<longrightarrow> startingPrice a \<le> amount d)
      (artworks ?s1)"
    using assms(2) by simp
  ultimately show ?thesis unfolding s' by (rule price_invariant_with_price)
qed

lemma price_invariant_processExpiredArtworks:
  assumes "price_invariant s"
  shows "price_invariant (processExpiredArtworks now s)"
  using assms
  by (simp add: processExpiredArtworks_def fold_processExpired_step price_invariant_def
      list_all_iff fold_settle_prices)

lemma price_invariant_step:
  assumes "price_invariant s" and "keeps_to_start x s"
  shows "price_invariant (apply_operation x s)"
proof (cases x)
  case (Create d newId now)
  show ?thesis
  proof (cases "createArtwork d newId now s")
    case (Inl e)
    with Create assms(1) show ?thesis by simp
  next
    case (Inr r)
    obtain a s' where r: "r = (a, s')" by (cases r)
    with Inr price_invariant_createArtwork [OF assms(1), of d newId now a s'] Create
    show ?thesis by simp
  qed
next
  case (BidCommit d newId now)
  show ?thesis
  proof (cases "createBid d newId now s")
    case (Inl e)
    with BidCommit assms(1) show ?thesis by simp
  next
    case (Inr r)
    obtain b s' where r: "r = (b, s')" by (cases r)
    from assms(2) BidCommit
    have k: "list_all (\<lambda>a. artwork_id a = artworkId d \<longrightarrow> startingPrice a \<le> amount d) (artworks s)"
      by simp
    from Inr r have "createBid d newId now s = Inr (b, s')" by simp
    from price_invariant_createBid [OF assms(1) k this] Inr r BidCommit
    show ?thesis by simp
  qed
next
  case (PriceUpdate aid p now)
  with assms price_invariant_with_price [of s aid p now] show ?thesis
    by (cases "numeric_10_2 p") (simp_all add: updateArtworkPrice_Inr updateArtworkPrice_Inl)
next
  case (Sweep now)
  with price_invariant_processExpiredArtworks [OF assms(1), of now] show ?thesis by simp
qed

lemma price_invariant_run:
  "price_invariant s \<Longrightarrow> all_keep_to_start ops s \<Longrightarrow> price_invariant (run ops s)"
  unfolding run_def
proof (induction ops arbitrary: s)
  case Nil
  then show ?case by simp
next
  case (Cons x xs)
  from Cons.prems have "price_invariant (apply_operation x s)"
    by (simp add: price_invariant_step)
  moreover from Cons.prems have "all_keep_to_start xs (apply_operation x s)" by simp
  ultimately show ?case using Cons.IH by simp
qed

text \<open>
  Claim C2, as the code has it. A listing is created with its current price equal to its
  starting price, and a sweep changes no price. A bid commit or a price update writes the
  amount it is given; along any sequence of creations, bid commits, price updates and
  sweeps in which every written amount is at least the starting price of the listing it
  is written to, \<open>currentPrice \<ge> startingPrice\<close> holds for every listing.
\<close>

theorem price_invariant_preserved:
  assumes "price_invariant s" and "all_keep_to_start ops s"
  shows "price_invariant (run ops s)
         \<and> (\<forall>d newId now a s'. createArtwork d newId now (run ops s) = Inr (a, s') \<longrightarrow>
               currentPrice a = startingPrice a \<and> price_invariant s')"
proof -
  have inv: "price_invariant (run ops s)"
    using assms by (rule price_invariant_run)
  with price_invariant_createArtwork [OF inv] show ?thesis by blast
qed

theorem price_invariant_preserved_witness:
  "price_invariant empty_db
   \<and> all_keep_to_start
       [Create (sample_listing 10000 5000) ''a1'' 0,
        BidCommit \<lparr>artworkId = ''a1'', bidderId = ''u2'', amount = 15000\<rparr> ''b1'' 10,
        PriceUpdate ''a1'' 16000 20,
        Sweep 6000] empty_db
   \<and> price_invariant
       (run [Create (sample_listing 10000 5000) ''a1'' 0,
             BidCommit \<lparr>artworkId = ''a1'', bidderId = ''u2'', amount = 15000\<rparr> ''b1'' 10,
             PriceUpdate ''a1'' 16000 20,
             Sweep 6000] empty_db)"
proof -
  let ?ops = "[Create (sample_listing 10000 5000) ''a1'' 0,
        BidCommit \<lparr>artworkId = ''a1'', bidderId = ''u2'', amount = 15000\<rparr> ''b1'' 10,
        PriceUpdate ''a1'' 16000 20,
        Sweep 6000]"
  have i: "price_invariant empty_db"
    by (simp add: price_invariant_def empty_db_def)
  have k: "all_keep_to_start ?ops empty_db"
    by (simp add: empty_db_def sample_listing_def createArtwork_def createBid_def
        updateArtworkPrice_def numeric_10_2_def Let_def)
  from price_invariant_preserved [OF i k] i k show ?thesis
    by blast
qed

text \<open>
  The claim as the specification states it fails: after a listing is created at 100.00,
  a bid commit of 50.00 leaves its current price below its starting price.
\<close>

theorem price_below_start_reachable:
  "price_invariant (run [Create (sample_listing 10000 5000) ''a1'' 0] empty_db)
   \<and> \<not> price_invariant
         (run [Create (sample_listing 10000 5000) ''a1'' 0,
               BidCommit \<lparr>artworkId = ''a1'', bidderId = ''u2'', amount = 5000\<rparr> ''b1'' 10]
            empty_db)"
  by (simp add: run_def price_invariant_def empty_db_def sample_listing_def createArtwork_def
      createBid_def updateArtworkPrice_def numeric_10_2_def Let_def)

subsection \<open>Deletion\<close>

lemma fold_deleteUserArtwork:
  "bids (fold deleteUserArtwork xs s) = filter (\<lambda>b. artworkId b \<notin> set xs) (bids s) \<and>
   artworks (fold deleteUserArtwork xs s) = filter (\<lambda>a. artwork_id a \<notin> set xs) (artworks s) \<and>
   users (fold deleteUserArtwork xs s) = users s"
proof (induction xs arbitrary: s)
  case Nil
  show ?case by simp
next
  case (Cons x xs)
  have "bids (deleteUserArtwork x s) = filter (\<lambda>b. artworkId b \<noteq> x) (bids s)"
    "artworks (deleteUserArtwork x s) = filter (\<lambda>a. artwork_id a \<noteq> x) (artworks s)"
    "users (deleteUserArtwork x s) = users s"
    by (simp_all add: deleteUserArtwork_def Let_def)
  with Cons.IH [of "deleteUserArtwork x s"] show ?case
    by (auto intro: filter_cong)
qed

lemma deleteUserAccount_cascade:
  fixes s userId forceDelete
  defines "owned \<equiv> set (map artwork_id (filter (\<lambda>a. artistId a = userId) (artworks s)))"
  defines "s' \<equiv> snd (deleteUserAccount userId forceDelete s)"
  shows "users s' = filter (\<lambda>u. user_id u \<noteq> userId) (users s)"
    and "artworks s' = filter (\<lambda>a. artwork_id a \<notin> owned) (artworks s)"
    and "bids s' = filter (\<lambda>b. bidderId b \<noteq> userId \<and> artworkId b \<notin> owned) (bids s)"
  unfolding s'_def owned_def
  by (simp_all add: deleteUserAccount_def Let_def fold_deleteUserArtwork)

lemma deleteUserAccount_no_orphans:
  assumes "orphanBids s = []"
  shows "orphanBids (snd (deleteUserAccount userId forceDelete s)) = []"
  using assms
  unfolding orphanBids_def deleteUserAccount_cascade filter_empty_conv
  by auto

lemma delete_api_artworks_no_orphans:
  assumes "orphanBids s = []" 
  shows "orphanBids (snd (delete_api_artworks userId aid now s)) = []"
proof -
  have "orphanBids (snd (deleteArtwork aid s)) = []" if "length (getArtworkBids s aid) = 0"
  proof -
    from that have "\<forall>b\<in>set (bids s). artworkId b \<noteq> aid"
      using getArtworkBids_nonempty [of s aid] by auto
    with assms show ?thesis
      unfolding orphanBids_def deleteArtwork_def filter_empty_conv by auto
  qed
  with assms show ?thesis
    by (auto simp: delete_api_artworks_def split: option.splits)
qed

text \<open>
  Claim C5 fails on the administrator's listing delete. DELETE /api/admin/artworks/:id
  calls \<open>deleteArtwork\<close>, which removes the row and no bid: on \<open>sample_db\<close>, where no bid
  is orphaned, the admin u0 deletes a1, the answer is 204, and the bid b1 is left
  referencing a listing that is gone. The account cascade and the owner's delete do keep
  the bids consistent (\<open>deleteUserAccount_no_orphans\<close>, \<open>delete_api_artworks_no_orphans\<close>).
\<close>

theorem admin_delete_leaves_orphan_bid:
  "orphanBids sample_db = []
   \<and> fst (delete_api_admin_artworks ''u0'' ''a1'' sample_db) = (204, NoBody)
   \<and> map artwork_id (artworks (snd (delete_api_admin_artworks ''u0'' ''a1'' sample_db))) =
       [''a2'', ''a3'']
   \<and> orphanBids (snd (delete_api_admin_artworks ''u0'' ''a1'' sample_db)) =
       [sample_bid ''b1'' ''a1'' ''u2'' 20000 10]"
  by (simp add: orphanBids_def delete_api_admin_artworks_def requireRole_def getUser_def
      getArtwork_def deleteArtwork_def sample_db_def sample_artwork_def sample_bid_def
      sample_user_def)

text \<open>
  Claim C10. The database after \<open>deleteUserAccount userId False\<close> is the database after
  \<open>deleteUserAccount userId True\<close>: the flag changes the first log line only.
\<close>

theorem deleteUserAccount_force_irrelevant:
  "snd (deleteUserAccount userId False s) = snd (deleteUserAccount userId True s)
   \<and> tl (fst (deleteUserAccount userId False s)) = tl (fst (deleteUserAccount userId True s))"
  by (simp add: deleteUserAccount_def Let_def)

theorem deleteUserAccount_force_irrelevant_witness:
  "snd (deleteUserAccount ''u1'' False sample_db) = snd (deleteUserAccount ''u1'' True sample_db)
   \<and> snd (deleteUserAccount ''u1'' True sample_db) =
       \<lparr>users = [sample_user ''u0'' ADMIN, sample_user ''u2'' BIDDER], artworks = [], bids = []\<rparr>"
proof -
  have "snd (deleteUserAccount ''u1'' True sample_db) =
       \<lparr>users = [sample_user ''u0'' ADMIN, sample_user ''u2'' BIDDER], artworks = [], bids = []\<rparr>"
    by (simp add: deleteUserAccount_def deleteUserArtwork_def Let_def sample_db_def
        sample_artwork_def sample_bid_def sample_user_def)
  with conjunct1 [OF deleteUserAccount_force_irrelevant [of "''u1''" sample_db]]
  show ?thesis by simp
qed

subsection \<open>Listing creation\<close>

lemma min_1_Some [simp]: "min_1 (Some v) \<longleftrightarrow> v \<noteq> []"
  by (cases v) (simp_all add: min_1_def)






subsection \<open>The money formatter\<close>

lemma formatDecimal_prices:
  "formatDecimal ''150'' = ''150.00'' \<and> formatDecimal ''99.99'' = ''99.99''
   \<and> formatDecimal '' 200.5 USD'' = ''200.50'' \<and> two_decimals (formatDecimal ''99.99'')"
  by code_simp

text \<open>
  The model rounds as doubles do: 0.1 is read as \<open>3602879701896397 / 2 ^ 55\<close>, 1.005 is
  read as a double just below it and so formatted down, and twenty digits lose their
  last ones.
\<close>

lemma formatDecimal_doubles:
  "parseFloat ''0.1'' = Finite (3602879701896397 / 36028797018963968)
   \<and> formatDecimal ''1.005'' = ''1.00''
   \<and> formatDecimal ''12345678901234567890'' = ''12345678901234567168.00''"
  by code_simp

text \<open>
  Where the formatter keeps its promise: whenever the parsed value is NaN, a zero, or
  finite and below \<open>10 ^ 21\<close> in magnitude, the result ends in a point and two digits.
\<close>

lemma DecimalDigit_char_of:
  assumes "0 \<le> d" and "d < 10"
  shows "DecimalDigit (char_of (48 + d :: int))"
proof -
  have "(48 + d) mod 256 = 48 + d" using assms by simp
  then show ?thesis using assms by (simp add: DecimalDigit_def)
qed

lemma decimalRepresentation_digits:
  "0 \<le> n \<Longrightarrow> decimalRepresentation n \<noteq> [] \<and> list_all DecimalDigit (decimalRepresentation n)"
proof (induction n rule: decimalRepresentation.induct)
  case (1 n)
  show ?case
  proof (cases "n < 10")
    case True
    with "1.prems" have "DecimalDigit (char_of (48 + n))"
      by (simp add: DecimalDigit_char_of)
    with True show ?thesis
      unfolding decimalRepresentation.simps [of n] by simp
  next
    case False
    then have "0 \<le> n div 10" by simp
    with "1.IH" False have ih: "list_all DecimalDigit (decimalRepresentation (n div 10))"
      by simp
    have "0 \<le> n mod 10" "n mod 10 < 10" by simp_all
    then have "DecimalDigit (char_of (48 + n mod 10))"
      by (rule DecimalDigit_char_of)
    with ih False show ?thesis
      unfolding decimalRepresentation.simps [of n] by simp
  qed
qed

lemma split_last_two:
  assumes "3 \<le> length xs"
  shows "\<exists>front d1 d2. xs = front @ [d1, d2] \<and> front \<noteq> []"
proof -
  from assms obtain ys d2 where a: "xs = ys @ [d2]"
    by (cases xs rule: rev_cases) auto
  with assms have "2 \<le> length ys" by simp
  then obtain front d1 where b: "ys = front @ [d1]"
    by (cases ys rule: rev_cases) auto
  with a assms have "front \<noteq> []" by auto
  with a b show ?thesis by auto
qed

lemma DecimalDigit_not_point: "DecimalDigit c \<Longrightarrow> c \<noteq> CHR ''.''"
  by (auto simp: DecimalDigit_def)

lemma two_decimals_pointed:
  assumes m: "3 \<le> length m" "list_all DecimalDigit m"
    and s: "s = ''-'' \<or> s = []"
  shows "two_decimals (s @ take (length m - 2) m @ ''.'' @ drop (length m - 2) m)"
proof -
  from split_last_two [OF m(1)] obtain front d1 d2
    where f: "m = front @ [d1, d2]" and ne: "front \<noteq> []" by blast
  have t: "take (length m - 2) m = front" "drop (length m - 2) m = [d1, d2]"
    by (simp_all add: f)
  from m(2) have d: "DecimalDigit d1" "DecimalDigit d2" "list_all DecimalDigit front"
    by (simp_all add: f)
  from d(3) have np: "list_all (\<lambda>c. c \<noteq> CHR ''.'') front"
    by (auto simp: list_all_iff dest: DecimalDigit_not_point)
  have ns: "list_all (\<lambda>c. c \<noteq> CHR ''.'') s"
    using s by auto
  have r: "rev (s @ front @ ''.'' @ [d1, d2]) = d2 # d1 # CHR ''.'' # (rev front @ rev s)"
    by simp
  have "two_decimals (s @ front @ ''.'' @ [d1, d2])"
    unfolding two_decimals_def r using d(1,2) np ns ne
    by (auto simp: list_all_iff)
  then show ?thesis by (simp only: t)
qed

lemma toFixed_finite_two_decimals:
  assumes "\<bar>x\<bar> < 10 ^ 21"
  shows "two_decimals (toFixed_finite x 2)"
proof -
  let ?n = "\<lfloor>\<bar>x\<bar> * 10 ^ 2 + 1 / 2\<rfloor>"
  let ?m = "if ?n = 0 then ''0'' else decimalRepresentation ?n"
  let ?m' = "if length ?m \<le> 2 then replicate (3 - length ?m) (CHR ''0'') @ ?m else ?m"
  let ?s = "if x < 0 then ''-'' else []"
  have n0: "0 \<le> ?n" by simp
  have z: "DecimalDigit (CHR ''0'')" by (simp add: DecimalDigit_def)
  have m: "list_all DecimalDigit ?m"
    using decimalRepresentation_digits [OF n0] z by simp
  have m': "list_all DecimalDigit ?m'"
    using m z by (simp add: list_all_iff)
  have len: "3 \<le> length ?m'"
    by (simp split: if_splits)
  have s: "?s = ''-'' \<or> ?s = []" by simp
  have eq: "toFixed_finite x 2 = ?s @ take (length ?m' - 2) ?m' @ ''.'' @ drop (length ?m' - 2) ?m'"
    using assms by (simp add: toFixed_finite_def Let_def)
  show ?thesis
    unfolding eq by (rule two_decimals_pointed [OF len m' s])
qed

lemma formatDecimal_two_decimals:
  assumes "case parseFloat v of
             PosInfinity \<Rightarrow> False | NegInfinity \<Rightarrow> False
           | Finite q \<Rightarrow> \<bar>q\<bar> < 10 ^ 21 | _ \<Rightarrow> True"
  shows "two_decimals (formatDecimal v)"
proof (cases "parseFloat v")
  case NaN
  have "two_decimals ''0.00''" by code_simp
  with NaN show ?thesis by (simp add: formatDecimal_def isNaN_def)
next
  case NegZero
  have "two_decimals (toFixed_finite 0 2)" by (rule toFixed_finite_two_decimals) simp
  with NegZero show ?thesis by (simp add: formatDecimal_def isNaN_def toFixed_def)
next
  case (Finite q)
  with assms have "\<bar>q\<bar> < 10 ^ 21" by simp
  then have "two_decimals (toFixed_finite q 2)" by (rule toFixed_finite_two_decimals)
  with Finite show ?thesis by (simp add: formatDecimal_def isNaN_def toFixed_def)
qed (use assms in simp_all)

text \<open>
  Claim C9 fails on the code. \<^verbatim>\<open>formatDecimal\<close> is total and answers "0.00" for "abc",
  but its only guard is \<^verbatim>\<open>isNaN\<close>: "Infinity" parses to a Number that is not NaN and
  comes back as "Infinity", and "1e21" comes back as "1e+21", neither with two digits
  after a point (\<open>formatDecimal_two_decimals\<close> covers every other parsed value);
  "-0.001" is formatted to "-0.00", which parses to the negative zero and is formatted to
  "0.00", so formatting twice is not formatting once.
\<close>

theorem formatDecimal_misses:
  "formatDecimal ''abc'' = ''0.00''
   \<and> formatDecimal ''Infinity'' = ''Infinity'' \<and> \<not> two_decimals (formatDecimal ''Infinity'')
   \<and> formatDecimal ''1e21'' = ''1e+21'' \<and> \<not> two_decimals (formatDecimal ''1e21'')
   \<and> formatDecimal ''-0.001'' = ''-0.00''
   \<and> formatDecimal (formatDecimal ''-0.001'') = ''0.00''"
proof -
  have a: "formatDecimal ''abc'' = ''0.00''" by code_simp
  have i: "formatDecimal ''Infinity'' = ''Infinity''" by code_simp
  have i2: "\<not> two_decimals ''Infinity''" by code_simp
  have l: "formatDecimal ''1e21'' = ''1e+21''" by code_simp
  have l2: "\<not> two_decimals ''1e+21''" by code_simp
  have z: "formatDecimal ''-0.001'' = ''-0.00''" by code_simp
  have z2: "formatDecimal ''-0.00'' = ''0.00''" by code_simp
  show ?thesis
    unfolding i l z by (intro conjI a i2 l2 z2 refl)
qed

end
